theory Spec2Isabelle
  imports Complex_Main "HOL-Library.Multiset"
begin

section \<open>Python builtins used by the pipeline\<close>

text \<open>
  Floats are modelled as reals, Python's unbounded ints as \<open>int\<close>, strings as
  \<open>string\<close>. A Pathway table is a list of rows (a \<^theory_text>\<open>record\<close> per schema);
  the order of the list is the order in which the rows arrived. A function that can raise
  returns \<open>py_error + 'a\<close>, with \<open>Inl\<close> for the exception.
\<close>

datatype py_error = ValueError | KeyError string | TypeError

text \<open>\<open>round(x, 1)\<close> and the format \<open>{x:.1f}\<close> round to the nearest tenth, ties to even.\<close>

definition round_half_even :: "real \<Rightarrow> int" where
  "round_half_even y =
     (let f = \<lfloor>y\<rfloor>; d = y - of_int f
      in if d < 1 / 2 then f
         else if d > 1 / 2 then f + 1
         else if even f then f else f + 1)"

definition round1 :: "real \<Rightarrow> real" where
  "round1 x = of_int (round_half_even (x * 10)) / 10"

definition digit_char :: "nat \<Rightarrow> char" where
  "digit_char d = char_of (48 + d)"

fun str_nat :: "nat \<Rightarrow> string" where
  "str_nat n = (if n < 10 then [digit_char n] else str_nat (n div 10) @ [digit_char (n mod 10)])"

definition str_int :: "int \<Rightarrow> string" where
  "str_int i = (if i < 0 then CHR ''-'' # str_nat (nat (- i)) else str_nat (nat i))"

definition format_1f :: "real \<Rightarrow> string" where
  "format_1f x =
     (let n = nat \<bar>round_half_even (x * 10)\<bar>
      in (if x < 0 then ''-'' else '''') @ str_nat (n div 10) @ ''.'' @ [digit_char (n mod 10)])"

section \<open>Pathway table operations\<close>

text \<open>
  \<open>t.groupby(key).reduce(key, count())\<close>: one row per distinct key, with the number of
  rows that carry it.
\<close>

definition groupby_count :: "('a \<Rightarrow> string) \<Rightarrow> 'a list \<Rightarrow> (string \<times> int) list" where
  "groupby_count key rows =
     map (\<lambda>v. (v, int (length (filter (\<lambda>r. key r = v) rows)))) (remdups (map key rows))"

text \<open>
  \<open>l.join_left(r, on)\<close>: every left row with each right row that matches it, or with no
  right row (\<open>None\<close>) when none matches.
\<close>

definition join_left :: "'a list \<Rightarrow> 'b list \<Rightarrow> ('a \<Rightarrow> 'b \<Rightarrow> bool) \<Rightarrow> ('a \<times> 'b option) list" where
  "join_left ls rs on =
     concat (map (\<lambda>l. case filter (on l) rs of
                          [] \<Rightarrow> [(l, None)]
                        | ms \<Rightarrow> map (\<lambda>r. (l, Some r)) ms) ls)"

definition coalesce :: "'a option \<Rightarrow> 'a \<Rightarrow> 'a" where
  "coalesce x d = (case x of None \<Rightarrow> d | Some v \<Rightarrow> v)"

definition avg :: "real list \<Rightarrow> real" where
  "avg xs = sum_list xs / real (length xs)"

text \<open>
  A reference \<open>pw.this.name\<close> inside \<open>t.select\<close>, \<open>t.with_columns\<close> or \<open>reduce\<close> is
  resolved against the columns of the table the call is made on, when the call builds
  the expression and before any row is processed. A name the table does not have raises
  KeyError; the first such reference of the call is the one reported.
\<close>

definition resolve :: "string list \<Rightarrow> string list \<Rightarrow> py_error + unit" where
  "resolve columns refs =
     (case filter (\<lambda>c. c \<notin> set columns) refs of
        [] \<Rightarrow> Inr ()
      | c # _ \<Rightarrow> Inl (KeyError c))"

text \<open>
  \<open>windowby(...)\<close> adds the window columns to those of the table; \<open>reduce\<close> resolves its
  references against them.
\<close>

definition windowby_columns :: "string list \<Rightarrow> string list" where
  "windowby_columns columns =
     columns @ [''_pw_window'', ''_pw_window_start'', ''_pw_window_end'', ''_pw_instance'']"

text \<open>
  Every column has a type. \<open>pw.apply\<close> takes it from the return annotation of the
  function it is given; a \<open>lambda\<close> has none, and its column is of type \<open>dt_ANY\<close>. An order
  comparison is typed when the expression is built: it is defined on numbers and on
  strings, and raises TypeError on any other pair of types, so on a \<open>dt_ANY\<close> operand.
\<close>

datatype dtype = dt_ANY | dt_FLOAT | dt_INT | dt_STR

definition apply_dtype :: "dtype option \<Rightarrow> dtype" where
  "apply_dtype annotation = (case annotation of None \<Rightarrow> dt_ANY | Some t \<Rightarrow> t)"

definition compare_dtypes :: "dtype \<Rightarrow> dtype \<Rightarrow> py_error + unit" where
  "compare_dtypes l r =
     (if l \<in> {dt_FLOAT, dt_INT} \<and> r \<in> {dt_FLOAT, dt_INT} then Inr ()
      else if l = dt_STR \<and> r = dt_STR then Inr ()
      else Inl TypeError)"

section \<open>Configuration (config/__init__.py)\<close>

definition default_emission_factor :: real where "default_emission_factor = 2.68"
definition window_duration_sec :: int where "window_duration_sec = 300"
definition zscore_threshold :: real where "zscore_threshold = 2.5"
definition route_bounds_km :: real where "route_bounds_km = 5"

section \<open>Table schemas\<close>

text \<open>
  Every table of the pipeline has a \<open>vehicle_id\<close> column. Timestamps are parsed with
  \<open>%Y-%m-%dT%H:%M:%S\<close>, so they are whole seconds: an \<open>int\<close>, counted from the epoch.
\<close>

record keyed =
  vehicle_id :: string

record gps_row = keyed +
  g_latitude :: real
  g_longitude :: real
  g_speed :: real
  g_parsed_time :: int

record fuel_row = keyed +
  f_fuel_liters :: real
  f_distance_km :: real
  f_fuel_type :: string
  f_parsed_time :: int

text \<open>The result of \<open>join_gps_fuel\<close>.\<close>

record telemetry = keyed +
  latitude :: real
  longitude :: real
  speed :: real
  fuel_liters :: real
  distance_km :: real
  fuel_type :: string
  timestamp :: int

text \<open>
  Telemetry with the \<open>carbon_kg\<close> column of \<open>compute_carbon_emissions\<close>, which the z-score
  detector reads.
\<close>

record telemetry_carbon = telemetry +
  carbon_kg :: real

text \<open>
  The columns of the telemetry table that main.py hands to the windows and the
  detectors: those of \<open>join_all_streams\<close>, then \<open>carbon_kg\<close> and \<open>fuel_efficiency\<close>.
\<close>

definition telemetry_columns :: "string list" where
  "telemetry_columns =
     [''vehicle_id'', ''latitude'', ''longitude'', ''speed'', ''fuel_liters'', ''distance_km'',
      ''fuel_type'', ''timestamp'', ''shipment_id'', ''shipment_status'', ''is_delayed'',
      ''carbon_kg'', ''fuel_efficiency'']"

text \<open>A row of \<open>compute_rolling_windows\<close>.\<close>

record window_row = keyed +
  window_start :: int
  window_end :: int
  avg_speed :: real
  max_speed :: real
  min_speed :: real
  total_fuel :: real
  total_distance :: real
  data_points :: int
  w_carbon_kg :: real
  w_fuel_efficiency :: real
  speed_variance :: real

text \<open>The columns the alert tables share, and the two alert tables modelled here.\<close>

record alert = keyed +
  anomaly_type :: string
  severity :: string
  message :: string
  a_timestamp :: int

record zscore_alert = alert +
  a_speed_zscore :: real
  a_carbon_zscore :: real

record route_alert = alert +
  deviation_km :: real
  a_latitude :: real
  a_longitude :: real

section \<open>Temporal join (streaming/joins.py)\<close>

text \<open>
  \<open>pw.temporal.interval_join(gps, fuel, gps.parsed_time, fuel.parsed_time,
  pw.temporal.interval(-30, 30), gps.vehicle_id == fuel.vehicle_id)\<close> is the library's inner
  interval join: it pairs a GPS row with every fuel row of the same vehicle whose time
  lies in \<open>[gps.parsed_time - 30, gps.parsed_time + 30]\<close>, both ends included.
\<close>

definition interval_join ::
  "'a list \<Rightarrow> 'b list \<Rightarrow> ('a \<Rightarrow> int) \<Rightarrow> ('b \<Rightarrow> int) \<Rightarrow> int \<times> int \<Rightarrow> ('a \<Rightarrow> 'b \<Rightarrow> bool)
     \<Rightarrow> ('a \<times> 'b) list" where
  "interval_join ls rs ltime rtime bounds on =
     concat (map (\<lambda>l. map (\<lambda>r. (l, r))
       (filter (\<lambda>r. ltime l + fst bounds \<le> rtime r \<and> rtime r \<le> ltime l + snd bounds \<and> on l r) rs))
       ls)"

definition join_gps_fuel :: "gps_row list \<Rightarrow> fuel_row list \<Rightarrow> telemetry list" where
  "join_gps_fuel gps fuel =
     map (\<lambda>(g, f).
        \<lparr>vehicle_id = vehicle_id g,
         latitude = g_latitude g,
         longitude = g_longitude g,
         speed = g_speed g,
         fuel_liters = f_fuel_liters f,
         distance_km = f_distance_km f,
         fuel_type = f_fuel_type f,
         timestamp = g_parsed_time g\<rparr>)
       (interval_join gps fuel g_parsed_time f_parsed_time (- 30, 30)
          (\<lambda>g f. vehicle_id g = vehicle_id f))"

section \<open>Tumbling windows (streaming/windows.py)\<close>

text \<open>
  \<open>pw.temporal.tumbling(duration)\<close> puts a row in the window
  \<open>[k * duration, (k + 1) * duration)\<close> that holds its time; \<open>instance\<close> keeps one window
  per vehicle. A window exists only when a row fell into it.
\<close>

definition tumbling_start :: "int \<Rightarrow> int" where
  "tumbling_start t = (t div window_duration_sec) * window_duration_sec"

definition window_key :: "'a telemetry_scheme \<Rightarrow> string \<times> int" where
  "window_key r = (vehicle_id r, tumbling_start (timestamp r))"

definition reduce_window :: "string \<times> int \<Rightarrow> 'a telemetry_scheme list \<Rightarrow> window_row" where
  "reduce_window k rows =
     (let emission_factor = default_emission_factor;
          avg_speed = avg (map speed rows);
          max_speed = Max (set (map speed rows));
          min_speed = Min (set (map speed rows));
          total_fuel = sum_list (map fuel_liters rows);
          total_distance = sum_list (map distance_km rows);
          data_points = int (length rows)
      in \<lparr>vehicle_id = fst k,
          window_start = snd k,
          window_end = snd k + window_duration_sec,
          avg_speed = avg_speed,
          max_speed = max_speed,
          min_speed = min_speed,
          total_fuel = total_fuel,
          total_distance = total_distance,
          data_points = data_points,
          w_carbon_kg = total_fuel * emission_factor,
          w_fuel_efficiency = (if total_fuel > 0 then total_distance / total_fuel else 0),
          speed_variance = max_speed - min_speed\<rparr>)"

text \<open>
  The references of the \<open>reduce\<close> call, in its order. The rows below are what the
  reducers and the derived columns give once the references resolve.
\<close>

definition rolling_windows_refs :: "string list" where
  "rolling_windows_refs =
     [''_instance'', ''_pw_window_start'', ''_pw_window_end'', ''speed'', ''speed'', ''speed'',
      ''fuel_liters'', ''distance_km'']"

definition compute_rolling_windows :: "'a telemetry_scheme list \<Rightarrow> py_error + window_row list" where
  "compute_rolling_windows telemetry =
     (case resolve (windowby_columns telemetry_columns) rolling_windows_refs of
        Inl e \<Rightarrow> Inl e
      | Inr _ \<Rightarrow>
          Inr (map (\<lambda>k. reduce_window k (filter (\<lambda>r. window_key r = k) telemetry))
                 (remdups (map window_key telemetry))))"

section \<open>Rolling z-score detector (anomalies/zscore.py)\<close>

text \<open>
  \<open>pw.temporal.sliding(duration = 300 s, hop = 60 s)\<close> puts a row in every window
  \<open>[k * 60, k * 60 + 300)\<close> that holds its time: five windows. \<open>pw.reducers.latest\<close> is the
  value of the row that arrived last.
\<close>

definition sliding_starts :: "int \<Rightarrow> int list" where
  "sliding_starts t =
     map (\<lambda>k. (t div 60) * 60 - 60 * int k) [0 ..< nat (window_duration_sec div 60)]"

record zscore_row = keyed +
  mean_speed :: real
  avg_speed_sq :: real
  mean_carbon :: real
  avg_carbon_sq :: real
  z_count :: int
  latest_speed :: real
  latest_carbon :: real
  window_time :: int
  std_speed :: real
  std_carbon :: real
  speed_zscore :: real
  carbon_zscore :: real

definition std_dev :: "real \<Rightarrow> real \<Rightarrow> real" where
  "std_dev avg_sq av = max (sqrt (max (avg_sq - av * av) 0)) 0.001"

definition zscore_of :: "real \<Rightarrow> real \<Rightarrow> real \<Rightarrow> real" where
  "zscore_of val mean std = \<bar>val - mean\<bar> / std"

definition zscore_keys :: "'a telemetry_carbon_scheme list \<Rightarrow> (string \<times> int) list" where
  "zscore_keys telemetry =
     remdups (concat (map (\<lambda>r. map (\<lambda>s. (vehicle_id r, s)) (sliding_starts (timestamp r)))
       telemetry))"

definition zscore_group ::
  "string \<times> int \<Rightarrow> 'a telemetry_carbon_scheme list \<Rightarrow> 'a telemetry_carbon_scheme list" where
  "zscore_group k telemetry =
     filter (\<lambda>r. vehicle_id r = fst k \<and> snd k \<in> set (sliding_starts (timestamp r))) telemetry"

definition reduce_zscore :: "string \<times> int \<Rightarrow> 'a telemetry_carbon_scheme list \<Rightarrow> zscore_row" where
  "reduce_zscore k rows =
     (let mean_speed = avg (map speed rows);
          avg_speed_sq = avg (map (\<lambda>r. speed r * speed r) rows);
          mean_carbon = avg (map carbon_kg rows);
          avg_carbon_sq = avg (map (\<lambda>r. carbon_kg r * carbon_kg r) rows);
          latest_speed = speed (last rows);
          latest_carbon = carbon_kg (last rows);
          std_speed = std_dev avg_speed_sq mean_speed;
          std_carbon = std_dev avg_carbon_sq mean_carbon
      in \<lparr>vehicle_id = fst k,
          mean_speed = mean_speed,
          avg_speed_sq = avg_speed_sq,
          mean_carbon = mean_carbon,
          avg_carbon_sq = avg_carbon_sq,
          z_count = int (length rows),
          latest_speed = latest_speed,
          latest_carbon = latest_carbon,
          window_time = snd k,
          std_speed = std_speed,
          std_carbon = std_carbon,
          speed_zscore = zscore_of latest_speed mean_speed std_speed,
          carbon_zscore = zscore_of latest_carbon mean_carbon std_carbon\<rparr>)"

text \<open>The references of the \<open>reduce\<close> call of the statistics, in its order.\<close>

definition zscore_refs :: "string list" where
  "zscore_refs =
     [''_instance'', ''speed'', ''speed'', ''speed'', ''carbon_kg'', ''carbon_kg'', ''carbon_kg'',
      ''speed'', ''carbon_kg'', ''_pw_window_start'']"

definition zscores :: "'a telemetry_carbon_scheme list \<Rightarrow> py_error + zscore_row list" where
  "zscores telemetry =
     (case resolve (windowby_columns telemetry_columns) zscore_refs of
        Inl e \<Rightarrow> Inl e
      | Inr _ \<Rightarrow>
          Inr (map (\<lambda>k. reduce_zscore k (zscore_group k telemetry)) (zscore_keys telemetry)))"

definition is_zscore_anomaly :: "zscore_row \<Rightarrow> bool" where
  "is_zscore_anomaly z =
     (speed_zscore z > zscore_threshold \<or> carbon_zscore z > zscore_threshold)"

definition zscore_select :: "zscore_row \<Rightarrow> zscore_alert" where
  "zscore_select z =
     \<lparr>vehicle_id = vehicle_id z,
      anomaly_type =
        (if speed_zscore z > zscore_threshold then ''speed_zscore'' else ''carbon_zscore''),
      severity =
        (if speed_zscore z > zscore_threshold * 1.5 \<or> carbon_zscore z > zscore_threshold * 1.5
         then ''critical'' else ''high''),
      message = ''Z-score anomaly: speed z='' @ format_1f (speed_zscore z)
        @ '', carbon z='' @ format_1f (carbon_zscore z),
      a_timestamp = window_time z,
      a_speed_zscore = speed_zscore z,
      a_carbon_zscore = carbon_zscore z\<rparr>"

text \<open>
  The z-score columns come from \<open>pw.apply\<close> on a \<open>lambda\<close>; the filter compares them with
  the float threshold.
\<close>

definition detect_zscore_anomalies ::
  "'a telemetry_carbon_scheme list \<Rightarrow> py_error + zscore_alert list" where
  "detect_zscore_anomalies telemetry =
     (case zscores telemetry of
        Inl e \<Rightarrow> Inl e
      | Inr zs \<Rightarrow>
          (case compare_dtypes (apply_dtype None) dt_FLOAT of
             Inl e \<Rightarrow> Inl e
           | Inr _ \<Rightarrow> Inr (map zscore_select (filter is_zscore_anomaly zs))))"

section \<open>Route deviation detector (anomalies/route_deviation.py)\<close>

definition EXPECTED_ROUTES :: "(string \<times> real \<times> real) list" where
  "EXPECTED_ROUTES =
     [(''V-101'', (40.7128, - 74.0060)),
      (''V-102'', (42.3601, - 71.0589)),
      (''V-103'', (39.9526, - 75.1652)),
      (''V-104'', (40.7357, - 74.1724)),
      (''V-105'', (41.7658, - 72.6734)),
      (''V-106'', (39.2904, - 76.6122))]"

text \<open>
  The functions of \<open>math\<close> and the arithmetic of floats return the double nearest to the
  exact result. In \<open>haversine_km\<close> that rounding decides whether \<open>math.sqrt\<close> raises (the
  computed \<open>a\<close> can come out above 1 for points near the antipodes), so the rounding is a
  parameter \<open>fl\<close> of the model, applied to the result of every operation.
\<close>

definition radians :: "(real \<Rightarrow> real) \<Rightarrow> real \<Rightarrow> real" where
  "radians fl x = fl (x * pi / 180)"

text \<open>\<open>math.sqrt\<close> raises ValueError below 0.\<close>

definition py_sqrt :: "(real \<Rightarrow> real) \<Rightarrow> real \<Rightarrow> py_error + real" where
  "py_sqrt fl x = (if x < 0 then Inl ValueError else Inr (fl (sqrt x)))"

definition atan2 :: "(real \<Rightarrow> real) \<Rightarrow> real \<Rightarrow> real \<Rightarrow> real" where
  "atan2 fl y x =
     fl (if x > 0 then arctan (y / x)
         else if x < 0 \<and> y \<ge> 0 then arctan (y / x) + pi
         else if x < 0 then arctan (y / x) - pi
         else if y > 0 then pi / 2
         else if y < 0 then - pi / 2
         else 0)"

definition haversine_km ::
  "(real \<Rightarrow> real) \<Rightarrow> real \<Rightarrow> real \<Rightarrow> real \<Rightarrow> real \<Rightarrow> py_error + real" where
  "haversine_km fl lat1 lon1 lat2 lon2 =
     (let R = 6371;
          dlat = radians fl (fl (lat2 - lat1));
          dlon = radians fl (fl (lon2 - lon1));
          a = fl (fl ((fl (sin (fl (dlat / 2))))\<^sup>2)
                  + fl (fl (fl (cos (radians fl lat1)) * fl (cos (radians fl lat2)))
                        * fl ((fl (sin (fl (dlon / 2))))\<^sup>2)))
      in case py_sqrt fl a of
           Inl e \<Rightarrow> Inl e
         | Inr sa \<Rightarrow>
             (case py_sqrt fl (fl (1 - a)) of
                Inl e \<Rightarrow> Inl e
              | Inr sb \<Rightarrow> Inr (fl (R * fl (2 * atan2 fl sa sb)))))"

definition compute_deviation ::
  "(real \<Rightarrow> real) \<Rightarrow> string \<Rightarrow> real \<Rightarrow> real \<Rightarrow> py_error + real" where
  "compute_deviation fl vid lat lon =
     (let expected = (case map_of EXPECTED_ROUTES vid of
                        Some p \<Rightarrow> p
                      | None \<Rightarrow> (40.7128, - 74.0060))
      in haversine_km fl lat lon (fst expected) (snd expected))"

text \<open>The column \<open>route_deviation_km\<close>: an exception in one row fails the computation.\<close>

fun with_deviation ::
  "(real \<Rightarrow> real) \<Rightarrow> 'a telemetry_scheme list \<Rightarrow> py_error + ('a telemetry_scheme \<times> real) list" where
  "with_deviation fl [] = Inr []"
| "with_deviation fl (r # rs) =
     (case compute_deviation fl (vehicle_id r) (latitude r) (longitude r) of
        Inl e \<Rightarrow> Inl e
      | Inr d \<Rightarrow>
          (case with_deviation fl rs of
             Inl e \<Rightarrow> Inl e
           | Inr ds \<Rightarrow> Inr ((r, d) # ds)))"

definition route_select :: "'a telemetry_scheme \<times> real \<Rightarrow> route_alert" where
  "route_select rd =
     (let max_deviation = route_bounds_km; r = fst rd; route_deviation_km = snd rd
      in \<lparr>vehicle_id = vehicle_id r,
          anomaly_type = ''route_deviation'',
          severity =
            (if route_deviation_km > max_deviation * 3 then ''critical''
             else if route_deviation_km > max_deviation * 2 then ''high''
             else ''medium''),
          message = ''Route deviation: '' @ format_1f route_deviation_km
            @ '' km from expected route'',
          a_timestamp = timestamp r,
          deviation_km = route_deviation_km,
          a_latitude = latitude r,
          a_longitude = longitude r\<rparr>)"

text \<open>
  \<open>route_deviation_km\<close> comes from \<open>pw.apply\<close> on a \<open>lambda\<close>; the filter compares it with
  the float \<open>max_deviation\<close> when the table is built, before any distance is computed.
\<close>

definition detect_route_deviations ::
  "(real \<Rightarrow> real) \<Rightarrow> 'a telemetry_scheme list \<Rightarrow> py_error + route_alert list" where
  "detect_route_deviations fl telemetry =
     (case compare_dtypes (apply_dtype None) dt_FLOAT of
        Inl e \<Rightarrow> Inl e
      | Inr _ \<Rightarrow>
          (case with_deviation fl telemetry of
             Inl e \<Rightarrow> Inl e
           | Inr ds \<Rightarrow> Inr (map route_select (filter (\<lambda>rd. snd rd > route_bounds_km) ds))))"

section \<open>Risk scoring (services/risk_scoring.py)\<close>

record stats_row = keyed +
  s_avg_speed :: real
  s_avg_efficiency :: real
  s_avg_carbon_kg :: real
  s_speed_var :: real

record risk_row = keyed +
  r_avg_speed :: real
  avg_efficiency :: real
  avg_carbon_kg :: real
  speed_var :: real
  threshold_alert_count :: int
  zscore_alert_count :: int
  route_alert_count :: int
  total_alerts :: int
  alert_impact :: real
  efficiency_impact :: real
  carbon_impact :: real
  status_impact :: real
  risk_score :: real
  alert_impact_pct :: real
  efficiency_impact_pct :: real
  carbon_impact_pct :: real
  status_impact_pct :: real

text \<open>The four \<open>lambda\<close>s of the explainable factors, and the one of the percentages.\<close>

definition alert_impact_of :: "int \<Rightarrow> real" where
  "alert_impact_of total_cnt = min 100 (real_of_int total_cnt * 20)"

definition efficiency_impact_of :: "real \<Rightarrow> real" where
  "efficiency_impact_of eff =
     (if eff \<ge> 8 then 10 else if eff \<ge> 6 then 25 else if eff \<ge> 4 then 55 else 85)"

definition carbon_impact_of :: "real \<Rightarrow> real" where
  "carbon_impact_of carbon = min 100 (carbon * 5)"

definition status_impact_of :: "int \<Rightarrow> real \<Rightarrow> real" where
  "status_impact_of route_cnt sv =
     min 100 (real_of_int route_cnt * 35 + (if sv > 30 then 35 else 10))"

definition impact_pct :: "real \<Rightarrow> real \<Rightarrow> real" where
  "impact_pct part risk = (if risk > 0 then (part / risk) * 100 else 0)"

definition vehicle_stats :: "window_row list \<Rightarrow> stats_row list" where
  "vehicle_stats windowed =
     map (\<lambda>v. let g = filter (\<lambda>w. vehicle_id w = v) windowed
              in \<lparr>vehicle_id = v,
                  s_avg_speed = avg (map avg_speed g),
                  s_avg_efficiency = avg (map w_fuel_efficiency g),
                  s_avg_carbon_kg = avg (map w_carbon_kg g),
                  s_speed_var = avg (map speed_variance g)\<rparr>)
       (remdups (map vehicle_id windowed))"

text \<open>A left join with a table of counts, the missing count read as 0.\<close>

definition join_count :: "'a list \<Rightarrow> ('a \<Rightarrow> string) \<Rightarrow> (string \<times> int) list \<Rightarrow> ('a \<times> int) list" where
  "join_count ls key counts =
     map (\<lambda>(l, r). (l, coalesce (map_option snd r) 0))
       (join_left ls counts (\<lambda>l r. key l = fst r))"

definition score_row :: "((stats_row \<times> int) \<times> int) \<times> int \<Rightarrow> risk_row" where
  "score_row x =
     (let st = fst (fst (fst x));
          threshold_cnt = snd (fst (fst x));
          zscore_cnt = snd (fst x);
          route_cnt = snd x;
          total_cnt = threshold_cnt + zscore_cnt + route_cnt;
          ai = alert_impact_of total_cnt;
          ei = efficiency_impact_of (s_avg_efficiency st);
          ci = carbon_impact_of (s_avg_carbon_kg st);
          si = status_impact_of route_cnt (s_speed_var st);
          risk = 0.35 * ai + 0.25 * ei + 0.25 * ci + 0.15 * si
      in \<lparr>vehicle_id = vehicle_id st,
          r_avg_speed = s_avg_speed st,
          avg_efficiency = s_avg_efficiency st,
          avg_carbon_kg = s_avg_carbon_kg st,
          speed_var = s_speed_var st,
          threshold_alert_count = threshold_cnt,
          zscore_alert_count = zscore_cnt,
          route_alert_count = route_cnt,
          total_alerts = total_cnt,
          alert_impact = ai,
          efficiency_impact = ei,
          carbon_impact = ci,
          status_impact = si,
          risk_score = risk,
          alert_impact_pct = impact_pct (0.35 * ai) risk,
          efficiency_impact_pct = impact_pct (0.25 * ei) risk,
          carbon_impact_pct = impact_pct (0.25 * ci) risk,
          status_impact_pct = impact_pct (0.15 * si) risk\<rparr>)"

text \<open>
  The columns of \<open>with_all_alerts\<close>, and the references of the \<open>with_columns\<close> call that
  builds \<open>explainable\<close>, in its order: \<open>alert_impact\<close> reads \<open>total_alerts\<close>, which the
  same call defines. The rows below are what the call gives once the references resolve.
\<close>

definition with_all_alerts_columns :: "string list" where
  "with_all_alerts_columns =
     [''vehicle_id'', ''avg_speed'', ''avg_efficiency'', ''avg_carbon_kg'', ''speed_var'',
      ''threshold_alert_count'', ''zscore_alert_count'', ''route_alert_count'']"

definition explainable_refs :: "string list" where
  "explainable_refs =
     [''threshold_alert_count'', ''zscore_alert_count'', ''route_alert_count'', ''total_alerts'',
      ''avg_efficiency'', ''avg_carbon_kg'', ''route_alert_count'', ''speed_var'']"

definition compute_risk_scores ::
  "window_row list \<Rightarrow> 'a keyed_scheme list \<Rightarrow> 'b keyed_scheme list \<Rightarrow> 'c keyed_scheme list
     \<Rightarrow> py_error + risk_row list" where
  "compute_risk_scores windowed threshold_alerts zscore_alerts route_alerts =
     (let threshold_counts = groupby_count vehicle_id threshold_alerts;
          zscore_counts = groupby_count vehicle_id zscore_alerts;
          route_counts = groupby_count vehicle_id route_alerts;
          with_threshold = join_count (vehicle_stats windowed) vehicle_id threshold_counts;
          with_zscore = join_count with_threshold (\<lambda>l. vehicle_id (fst l)) zscore_counts;
          with_all_alerts = join_count with_zscore (\<lambda>l. vehicle_id (fst (fst l))) route_counts
      in case resolve with_all_alerts_columns explainable_refs of
           Inl e \<Rightarrow> Inl e
         | Inr _ \<Rightarrow> Inr (map score_row with_all_alerts))"

section \<open>Vehicle state machine (state_machine/vehicle_state.py)\<close>

definition STATE_NORMAL :: string where "STATE_NORMAL = ''NORMAL''"
definition STATE_EFFICIENT :: string where "STATE_EFFICIENT = ''EFFICIENT''"
definition STATE_HIGH_EMISSION :: string where "STATE_HIGH_EMISSION = ''HIGH_EMISSION''"
definition STATE_ROUTE_DEVIATION :: string where "STATE_ROUTE_DEVIATION = ''ROUTE_DEVIATION''"
definition STATE_IDLE :: string where "STATE_IDLE = ''IDLE''"
definition STATE_CRITICAL_RISK :: string where "STATE_CRITICAL_RISK = ''CRITICAL_RISK''"

definition EMISSION_THRESHOLD_KG :: real where "EMISSION_THRESHOLD_KG = 15"
definition EFFICIENCY_GOOD_THRESHOLD :: real where "EFFICIENCY_GOOD_THRESHOLD = 7"
definition IDLE_SPEED_KMH :: real where "IDLE_SPEED_KMH = 5"
definition CRITICAL_RISK_SCORE :: real where "CRITICAL_RISK_SCORE = 80"
definition CRITICAL_ALERT_COUNT :: int where "CRITICAL_ALERT_COUNT = 3"

definition determine_state :: "real \<Rightarrow> real \<Rightarrow> real \<Rightarrow> real \<Rightarrow> int \<Rightarrow> int \<Rightarrow> string" where
  "determine_state carbon_kg' avg_speed' fuel_efficiency' risk_score' alert_count route_deviation =
     (if risk_score' > CRITICAL_RISK_SCORE \<or> alert_count \<ge> CRITICAL_ALERT_COUNT
        then STATE_CRITICAL_RISK
      else if route_deviation = 1 then STATE_ROUTE_DEVIATION
      else if carbon_kg' > EMISSION_THRESHOLD_KG then STATE_HIGH_EMISSION
      else if avg_speed' < IDLE_SPEED_KMH then STATE_IDLE
      else if fuel_efficiency' > EFFICIENCY_GOOD_THRESHOLD \<and> alert_count = 0
        then STATE_EFFICIENT
      else STATE_NORMAL)"

definition state_to_risk_level :: "string \<Rightarrow> string" where
  "state_to_risk_level state =
     (case map_of
        [(STATE_CRITICAL_RISK, ''critical''),
         (STATE_HIGH_EMISSION, ''high''),
         (STATE_ROUTE_DEVIATION, ''high''),
         (STATE_IDLE, ''medium''),
         (STATE_NORMAL, ''low''),
         (STATE_EFFICIENT, ''minimal'')] state of
        Some l \<Rightarrow> l
      | None \<Rightarrow> ''low'')"

definition transition_reason ::
  "real \<Rightarrow> real \<Rightarrow> real \<Rightarrow> real \<Rightarrow> int \<Rightarrow> int \<Rightarrow> string \<Rightarrow> string" where
  "transition_reason carbon_kg' avg_speed' fuel_efficiency' risk_score' alert_count route_deviation state =
     (if state = STATE_CRITICAL_RISK
        then ''Risk score '' @ format_1f risk_score' @ '' > 80 or '' @ str_int alert_count
             @ '' alerts triggered''
      else if state = STATE_ROUTE_DEVIATION
        then ''Vehicle coordinates outside permitted route bounds''
      else if state = STATE_HIGH_EMISSION
        then ''Carbon emissions '' @ format_1f carbon_kg' @ '' kg exceeds threshold of 15.0 kg''
      else if state = STATE_IDLE
        then ''Average speed '' @ format_1f avg_speed' @ '' km/h below idle threshold of 5.0 km/h''
      else if state = STATE_EFFICIENT
        then ''Fuel efficiency '' @ format_1f fuel_efficiency' @ '' km/L above 7.0 with no alerts''
      else ''All metrics within normal operating range'')"

text \<open>The table \<open>combined\<close>: window metrics with the risk score and the route flag joined in.\<close>

record combined_row = keyed +
  c_avg_carbon_kg :: real
  c_avg_speed :: real
  c_avg_efficiency :: real
  c_alert_count :: int
  c_risk_score :: real
  c_route_deviation :: int

record vehicle_state_row = keyed +
  current_state :: string
  previous_state :: string
  transition_reason_col :: string
  risk_level :: string
  vs_risk_score :: real

record history_row = keyed +
  h_state :: string
  h_risk_level :: string
  h_reason :: string

definition combine ::
  "window_row list \<Rightarrow> risk_row list \<Rightarrow> 'a keyed_scheme list \<Rightarrow> combined_row list" where
  "combine windowed risk_scores route_alerts =
     (let with_risk = join_left windowed risk_scores (\<lambda>l r. vehicle_id l = vehicle_id r);
          route_flag = groupby_count vehicle_id route_alerts;
          combined = join_left with_risk route_flag (\<lambda>l r. vehicle_id (fst l) = fst r)
      in map (\<lambda>((l, r), f).
           \<lparr>vehicle_id = vehicle_id l,
            c_avg_carbon_kg = w_carbon_kg l,
            c_avg_speed = avg_speed l,
            c_avg_efficiency = w_fuel_efficiency l,
            c_alert_count = coalesce (map_option total_alerts r) 0,
            c_risk_score = coalesce (map_option risk_score r) 0,
            c_route_deviation = coalesce (map_option snd f) 0\<rparr>) combined)"

definition classify_row :: "combined_row \<Rightarrow> vehicle_state_row" where
  "classify_row c =
     (let st = determine_state (c_avg_carbon_kg c) (c_avg_speed c) (c_avg_efficiency c)
                 (c_risk_score c) (c_alert_count c) (c_route_deviation c)
      in \<lparr>vehicle_id = vehicle_id c,
          current_state = st,
          previous_state = STATE_NORMAL,
          transition_reason_col =
            transition_reason (c_avg_carbon_kg c) (c_avg_speed c) (c_avg_efficiency c)
              (c_risk_score c) (c_alert_count c) (c_route_deviation c) st,
          risk_level = state_to_risk_level st,
          vs_risk_score = c_risk_score c\<rparr>)"

definition compute_vehicle_states ::
  "window_row list \<Rightarrow> risk_row list \<Rightarrow> 'a keyed_scheme list \<Rightarrow> vehicle_state_row list" where
  "compute_vehicle_states windowed risk_scores route_alerts =
     map classify_row (combine windowed risk_scores route_alerts)"

definition compute_state_history :: "vehicle_state_row list \<Rightarrow> history_row list" where
  "compute_state_history vehicle_states =
     map (\<lambda>r. \<lparr>vehicle_id = vehicle_id r,
               h_state = current_state r,
               h_risk_level = risk_level r,
               h_reason = transition_reason_col r\<rparr>) vehicle_states"

text \<open>
  The tables are recomputed whenever an input changes: a classification run is the
  value of \<open>compute_vehicle_states\<close> on the inputs of that moment.
\<close>

definition classification_runs ::
  "(window_row list \<times> risk_row list \<times> 'a keyed_scheme list) list \<Rightarrow> vehicle_state_row list list" where
  "classification_runs inputs =
     map (\<lambda>(windowed, risk_scores, route_alerts).
            compute_vehicle_states windowed risk_scores route_alerts) inputs"

section \<open>Forecasting (forecasting/predictor.py)\<close>

definition fuel_exhaustion_minutes :: "real \<Rightarrow> real \<Rightarrow> real \<Rightarrow> real" where
  "fuel_exhaustion_minutes avg_fuel_consumed avg_efficiency' avg_speed' =
     (let window_minutes = 5;
          fuel_rate_per_min = avg_fuel_consumed / window_minutes
      in if fuel_rate_per_min < 0.01 then - 1
         else (let typical_remaining_litres = 40;
                   critical_threshold_litres = 10;
                   usable_fuel = typical_remaining_litres - critical_threshold_litres;
                   minutes_remaining = usable_fuel / fuel_rate_per_min
               in round1 (max 0 minutes_remaining)))"

section \<open>Unfolding rules\<close>

lemmas state_defs =
  STATE_NORMAL_def STATE_EFFICIENT_def STATE_HIGH_EMISSION_def
  STATE_ROUTE_DEVIATION_def STATE_IDLE_def STATE_CRITICAL_RISK_def

lemmas threshold_defs =
  EMISSION_THRESHOLD_KG_def EFFICIENCY_GOOD_THRESHOLD_def IDLE_SPEED_KMH_def
  CRITICAL_RISK_SCORE_def CRITICAL_ALERT_COUNT_def

lemmas table_defs = groupby_count_def join_count_def join_left_def coalesce_def avg_def

lemmas impact_defs =
  alert_impact_of_def efficiency_impact_of_def carbon_impact_of_def status_impact_of_def

lemmas state_machine_defs =
  compute_vehicle_states_def combine_def classify_row_def determine_state_def
  transition_reason_def state_to_risk_level_def threshold_defs state_defs Let_def

section \<open>Rounding\<close>

lemma round_half_even_bounds: "\<bar>of_int (round_half_even y) - y\<bar> \<le> 1 / 2"
  unfolding round_half_even_def Let_def by (auto simp: abs_real_def) linarith+

lemma round1_close: "\<bar>round1 y - y\<bar> \<le> 1 / 20"
proof -
  have "\<bar>of_int (round_half_even (y * 10)) - y * 10\<bar> \<le> 1 / 2"
    by (rule round_half_even_bounds)
  then show ?thesis unfolding round1_def by (simp add: abs_real_def field_simps split: if_splits)
qed

lemma round_half_even_mono: "0 \<le> y \<Longrightarrow> 0 \<le> round_half_even y"
  unfolding round_half_even_def Let_def by auto

lemma round1_nonneg: "0 \<le> y \<Longrightarrow> 0 \<le> round1 y"
  unfolding round1_def using round_half_even_mono [of "y * 10"] by simp

section \<open>What the row expressions compute\<close>

text \<open>The risk table: the weighted sum and the four impacts of a row, and their ranges.\<close>

lemma score_row_formula:
  "risk_score (score_row x) =
       0.35 * alert_impact (score_row x) + 0.25 * efficiency_impact (score_row x)
       + 0.25 * carbon_impact (score_row x) + 0.15 * status_impact (score_row x)
   \<and> total_alerts (score_row x) = threshold_alert_count (score_row x)
       + zscore_alert_count (score_row x) + route_alert_count (score_row x)
   \<and> alert_impact (score_row x) = min 100 (real_of_int (total_alerts (score_row x)) * 20)
   \<and> efficiency_impact (score_row x) =
       (if avg_efficiency (score_row x) \<ge> 8 then 10
        else if avg_efficiency (score_row x) \<ge> 6 then 25
        else if avg_efficiency (score_row x) \<ge> 4 then 55 else 85)
   \<and> carbon_impact (score_row x) = min 100 (avg_carbon_kg (score_row x) * 5)
   \<and> status_impact (score_row x) =
       min 100 (real_of_int (route_alert_count (score_row x)) * 35
                + (if speed_var (score_row x) > 30 then 35 else 10))"
  by (simp add: score_row_def Let_def impact_defs)

lemma score_row_bounds:
  assumes "0 \<le> total_alerts (score_row x)" "0 \<le> route_alert_count (score_row x)"
    and "0 \<le> avg_carbon_kg (score_row x)"
  shows "4 \<le> risk_score (score_row x) \<and> risk_score (score_row x) \<le> 96.25"
proof -
  have b: "0 \<le> alert_impact (score_row x)" "alert_impact (score_row x) \<le> 100"
    "10 \<le> efficiency_impact (score_row x)" "efficiency_impact (score_row x) \<le> 85"
    "0 \<le> carbon_impact (score_row x)" "carbon_impact (score_row x) \<le> 100"
    "10 \<le> status_impact (score_row x)" "status_impact (score_row x) \<le> 100"
    using assms score_row_formula [of x] by auto
  have eq: "risk_score (score_row x) =
       0.35 * alert_impact (score_row x) + 0.25 * efficiency_impact (score_row x)
       + 0.25 * carbon_impact (score_row x) + 0.15 * status_impact (score_row x)"
    using score_row_formula [of x] by blast
  from b show ?thesis
    unfolding eq by simp
qed

text \<open>The window reducers: the derived columns, and their independence of the order of the rows.\<close>

lemma sum_list_map_mset:
  fixes f :: "'a \<Rightarrow> real"
  assumes "mset xs = mset ys"
  shows "sum_list (map f xs) = sum_list (map f ys)"
proof -
  have "sum_list (map f xs) = sum_mset (image_mset f (mset xs))"
    by (simp flip: sum_mset_sum_list)
  also have "\<dots> = sum_mset (image_mset f (mset ys))"
    by (simp add: assms)
  also have "\<dots> = sum_list (map f ys)"
    by (simp flip: sum_mset_sum_list)
  finally show ?thesis .
qed

lemma avg_map_mset:
  assumes "mset xs = mset ys"
  shows "avg (map f xs) = avg (map f ys)"
  using sum_list_map_mset [OF assms, of f] mset_eq_length [OF assms]
  by (simp add: avg_def)

lemma reduce_window_mset:
  assumes "mset xs = mset ys"
  shows "reduce_window k xs = reduce_window k ys"
proof -
  have "set xs = set ys"
    using assms by (rule mset_eq_setD)
  then have "set (map speed xs) = set (map speed ys)"
    by simp
  moreover have "length xs = length ys"
    using assms by (rule mset_eq_length)
  ultimately show ?thesis
    unfolding reduce_window_def
    by (simp only: avg_map_mset [OF assms] sum_list_map_mset [OF assms])
qed

lemma reduce_window_derived:
  "w_carbon_kg (reduce_window k rows) = total_fuel (reduce_window k rows) * default_emission_factor
   \<and> w_fuel_efficiency (reduce_window k rows) =
       (if total_fuel (reduce_window k rows) > 0
        then total_distance (reduce_window k rows) / total_fuel (reduce_window k rows) else 0)
   \<and> speed_variance (reduce_window k rows) =
       max_speed (reduce_window k rows) - min_speed (reduce_window k rows)"
  by (simp add: reduce_window_def Let_def)

text \<open>The z-score statistics: the floor of the standard deviation.\<close>

lemma std_dev_floor: "0.001 \<le> std_dev a m \<and> 0 < std_dev a m"
  by (simp add: std_dev_def)

text \<open>
  The route deviation: the distance of a point to itself, under any rounding that keeps 0
  and 1, and the severity and distance of an alert.
\<close>

lemma haversine_km_self:
  assumes "fl 0 = 0" "fl 1 = 1"
  shows "haversine_km fl lat lon lat lon = Inr 0"
  using assms by (simp add: haversine_km_def radians_def py_sqrt_def atan2_def Let_def)

lemma route_select_severity:
  "severity (route_select (r, d)) =
     (if d > 15 then ''critical'' else if d > 10 then ''high'' else ''medium'')
   \<and> deviation_km (route_select (r, d)) = d"
  by (simp add: route_select_def Let_def route_bounds_km_def)

text \<open>The classifier, rule by rule, on the flag it is given.\<close>

lemma determine_state_cases:
  "determine_state c s e r a d \<in>
     {STATE_CRITICAL_RISK, STATE_ROUTE_DEVIATION, STATE_HIGH_EMISSION,
      STATE_IDLE, STATE_EFFICIENT, STATE_NORMAL}
   \<and> distinct [STATE_CRITICAL_RISK, STATE_ROUTE_DEVIATION, STATE_HIGH_EMISSION,
      STATE_IDLE, STATE_EFFICIENT, STATE_NORMAL]
   \<and> (determine_state c s e r a d = STATE_CRITICAL_RISK \<longleftrightarrow> (r > 80 \<or> a \<ge> 3))
   \<and> (determine_state c s e r a d = STATE_ROUTE_DEVIATION \<longleftrightarrow>
        (\<not> (r > 80 \<or> a \<ge> 3) \<and> d = 1))
   \<and> (determine_state c s e r a d = STATE_HIGH_EMISSION \<longleftrightarrow>
        (\<not> (r > 80 \<or> a \<ge> 3) \<and> d \<noteq> 1 \<and> c > 15))
   \<and> (determine_state c s e r a d = STATE_IDLE \<longleftrightarrow>
        (\<not> (r > 80 \<or> a \<ge> 3) \<and> d \<noteq> 1 \<and> \<not> c > 15 \<and> s < 5))
   \<and> (determine_state c s e r a d = STATE_EFFICIENT \<longleftrightarrow>
        (\<not> (r > 80 \<or> a \<ge> 3) \<and> d \<noteq> 1 \<and> \<not> c > 15 \<and> \<not> s < 5 \<and> e > 7 \<and> a = 0))
   \<and> (determine_state c s e r a d = STATE_NORMAL \<longleftrightarrow>
        (\<not> (r > 80 \<or> a \<ge> 3) \<and> d \<noteq> 1 \<and> \<not> c > 15 \<and> \<not> s < 5 \<and> \<not> (e > 7 \<and> a = 0)))
   \<and> (\<forall>c' s' e'. determine_state c' s' e' 85 4 0 = STATE_CRITICAL_RISK)"
  by (simp add: determine_state_def state_defs threshold_defs)

section \<open>The temporal join\<close>

text \<open>
  C1. One GPS event with two fuel events of its vehicle inside the tolerance (10 s before
  and 5 s after) gives two telemetry records, one per fuel event, and not the single
  record of the nearer fuel event.
\<close>

theorem join_gps_fuel_two_matches:
  "map (\<lambda>r. (vehicle_id r, timestamp r, fuel_liters r))
     (join_gps_fuel
        [\<lparr>vehicle_id = ''V-101'', g_latitude = 40.7, g_longitude = - 74, g_speed = 60,
          g_parsed_time = 100\<rparr>]
        [\<lparr>vehicle_id = ''V-101'', f_fuel_liters = 1, f_distance_km = 5,
          f_fuel_type = ''diesel'', f_parsed_time = 90\<rparr>,
         \<lparr>vehicle_id = ''V-101'', f_fuel_liters = 2, f_distance_km = 9,
          f_fuel_type = ''diesel'', f_parsed_time = 105\<rparr>])
   = [(''V-101'', 100, 1), (''V-101'', 100, 2)]"
  by (simp add: join_gps_fuel_def interval_join_def)
section \<open>The state classifier\<close>

text \<open>
  C2. compute_vehicle_states hands the classifier the number of route-deviation alerts
  of the vehicle, and the classifier tests that number against 1. With two alerts the
  ROUTE_DEVIATION rule is skipped although a route-deviation alert is active: carbon 20,
  speed 1 and efficiency 9 classify as HIGH_EMISSION, a state of lower priority, where
  one alert gives ROUTE_DEVIATION.
\<close>

theorem determine_state_route_count_two:
  "determine_state 20 1 9 0 0 2 = STATE_HIGH_EMISSION
   \<and> determine_state 20 1 9 0 0 1 = STATE_ROUTE_DEVIATION
   \<and> map current_state (compute_vehicle_states
       [\<lparr>vehicle_id = ''V-101'', window_start = 0, window_end = 300, avg_speed = 1,
        max_speed = 2, min_speed = 0, total_fuel = 8, total_distance = 72, data_points = 3,
        w_carbon_kg = 21.44, w_fuel_efficiency = 9, speed_variance = 2\<rparr>] []
       [\<lparr>vehicle_id = ''V-101''\<rparr>, \<lparr>vehicle_id = ''V-101''\<rparr>])
     = [STATE_HIGH_EMISSION]
   \<and> map current_state (compute_vehicle_states
       [\<lparr>vehicle_id = ''V-101'', window_start = 0, window_end = 300, avg_speed = 1,
        max_speed = 2, min_speed = 0, total_fuel = 8, total_distance = 72, data_points = 3,
        w_carbon_kg = 21.44, w_fuel_efficiency = 9, speed_variance = 2\<rparr>] []
       [\<lparr>vehicle_id = ''V-101''\<rparr>])
     = [STATE_ROUTE_DEVIATION]"
  by (simp add: state_machine_defs table_defs)

section \<open>The state table and its history\<close>

text \<open>
  C3, as stated, fails: a vehicle classified HIGH_EMISSION in one run does not have
  HIGH_EMISSION as its previous_state after the next run.
\<close>

theorem previous_state_counterexample:
  "map previous_state (classification_runs
      [([\<lparr>vehicle_id = ''V-101'', window_start = 0, window_end = 300, avg_speed = 50,
          max_speed = 90, min_speed = 40, total_fuel = 6, total_distance = 30, data_points = 3,
          w_carbon_kg = 16.08, w_fuel_efficiency = 5, speed_variance = 50\<rparr>], [], [] :: keyed list),
       ([\<lparr>vehicle_id = ''V-101'', window_start = 0, window_end = 300, avg_speed = 50,
          max_speed = 90, min_speed = 40, total_fuel = 7, total_distance = 35, data_points = 4,
          w_carbon_kg = 18.76, w_fuel_efficiency = 5, speed_variance = 50\<rparr>], [], [])] ! 1)
   \<noteq> map current_state (classification_runs
      [([\<lparr>vehicle_id = ''V-101'', window_start = 0, window_end = 300, avg_speed = 50,
          max_speed = 90, min_speed = 40, total_fuel = 6, total_distance = 30, data_points = 3,
          w_carbon_kg = 16.08, w_fuel_efficiency = 5, speed_variance = 50\<rparr>], [], [] :: keyed list),
       ([\<lparr>vehicle_id = ''V-101'', window_start = 0, window_end = 300, avg_speed = 50,
          max_speed = 90, min_speed = 40, total_fuel = 7, total_distance = 35, data_points = 4,
          w_carbon_kg = 18.76, w_fuel_efficiency = 5, speed_variance = 50\<rparr>], [], [])] ! 0)"
  by (simp add: classification_runs_def state_machine_defs table_defs)

text \<open>
  C3, amended. After every classification run, previous_state of every row is the
  default state NORMAL, whatever the earlier runs computed.
\<close>

theorem previous_state_always_normal:
  "\<forall>tbl \<in> set (classification_runs inputs). \<forall>row \<in> set tbl. previous_state row = STATE_NORMAL"
  by (auto simp: classification_runs_def compute_vehicle_states_def classify_row_def Let_def)

theorem previous_state_always_normal_witness:
  "classification_runs
      [([\<lparr>vehicle_id = ''V-101'', window_start = 0, window_end = 300, avg_speed = 50,
          max_speed = 90, min_speed = 40, total_fuel = 6, total_distance = 30, data_points = 3,
          w_carbon_kg = 16.08, w_fuel_efficiency = 5, speed_variance = 50\<rparr>], [], [] :: keyed list)]
     \<noteq> []
   \<and> map (map (\<lambda>row. (current_state row, previous_state row))) (classification_runs
      [([\<lparr>vehicle_id = ''V-101'', window_start = 0, window_end = 300, avg_speed = 50,
          max_speed = 90, min_speed = 40, total_fuel = 6, total_distance = 30, data_points = 3,
          w_carbon_kg = 16.08, w_fuel_efficiency = 5, speed_variance = 50\<rparr>], [], [] :: keyed list)])
     = [[(STATE_HIGH_EMISSION, STATE_NORMAL)]]"
  using previous_state_always_normal
    [of "[([\<lparr>vehicle_id = ''V-101'', window_start = 0, window_end = 300, avg_speed = 50,
          max_speed = 90, min_speed = 40, total_fuel = 6, total_distance = 30, data_points = 3,
          w_carbon_kg = 16.08, w_fuel_efficiency = 5, speed_variance = 50\<rparr>], [], [] :: keyed list)]"]
  by (simp add: classification_runs_def state_machine_defs table_defs)

text \<open>
  C4. Two windows of one vehicle, both classified NORMAL, give two history records for
  it, although its state never changed: the history holds one record per row of the
  state table.
\<close>

theorem state_history_row_per_window:
  "map (\<lambda>h. (vehicle_id h, h_state h)) (compute_state_history (compute_vehicle_states
      [\<lparr>vehicle_id = ''V-101'', window_start = 0, window_end = 300, avg_speed = 50,
        max_speed = 90, min_speed = 40, total_fuel = 2, total_distance = 10, data_points = 3,
        w_carbon_kg = 5.36, w_fuel_efficiency = 5, speed_variance = 50\<rparr>,
       \<lparr>vehicle_id = ''V-101'', window_start = 300, window_end = 600, avg_speed = 55,
        max_speed = 80, min_speed = 40, total_fuel = 3, total_distance = 15, data_points = 4,
        w_carbon_kg = 8.04, w_fuel_efficiency = 5, speed_variance = 40\<rparr>] [] ([] :: keyed list)))
   = [(''V-101'', STATE_NORMAL), (''V-101'', STATE_NORMAL)]"
  by (simp add: compute_state_history_def state_machine_defs table_defs)

section \<open>The risk score\<close>

text \<open>
  C5. compute_risk_scores raises KeyError for total_alerts on every input: the
  with_columns call that defines total_alerts also reads it, on a table that does not
  have it yet. No row with a risk_score, and none of the impacts, is computed.
\<close>

theorem compute_risk_scores_raises:
  "compute_risk_scores windowed threshold_alerts zscore_alerts route_alerts
     = Inl (KeyError ''total_alerts'')"
  by (simp add: compute_risk_scores_def resolve_def with_all_alerts_columns_def
      explainable_refs_def Let_def)


section \<open>Fuel exhaustion forecast\<close>

text \<open>
  C8, as stated, fails: with 7 litres in the window the rate is 1.4 l/min and the
  result is 21.4, not 30 / 1.4.
\<close>

theorem fuel_exhaustion_unrounded_counterexample:
  "fuel_exhaustion_minutes 7 8 60 \<noteq> max 0 ((40 - 10) / (7 / 5))"
  by (simp add: fuel_exhaustion_minutes_def round1_def round_half_even_def Let_def)

text \<open>
  C8, amended. With rate = avg_fuel_consumed / 5, the result is the sentinel -1 when
  rate < 0.01 (so at rate 0), and otherwise (40 - 10) / rate floored at 0 and rounded to
  one decimal; it is -1 or non-negative, and the rounding moves it by at most 0.05.
\<close>

theorem fuel_exhaustion_rounded:
  "fuel_exhaustion_minutes f e s =
     (if f / 5 < 0.01 then - 1 else round1 (max 0 ((40 - 10) / (f / 5))))
   \<and> fuel_exhaustion_minutes 0 e s = - 1
   \<and> (fuel_exhaustion_minutes f e s = - 1 \<or> 0 \<le> fuel_exhaustion_minutes f e s)
   \<and> \<bar>round1 (max 0 ((40 - 10) / (f / 5))) - max 0 ((40 - 10) / (f / 5))\<bar> \<le> 1 / 20"
proof -
  have eq: "fuel_exhaustion_minutes f e s =
     (if f / 5 < 0.01 then - 1 else round1 (max 0 ((40 - 10) / (f / 5))))" for f e s
    by (simp add: fuel_exhaustion_minutes_def Let_def)
  have zero: "fuel_exhaustion_minutes 0 e s = - 1"
    by (simp add: eq)
  have sign: "fuel_exhaustion_minutes f e s = - 1 \<or> 0 \<le> fuel_exhaustion_minutes f e s"
  proof (cases "f / 5 < 0.01")
    case True
    then show ?thesis by (simp add: eq)
  next
    case False
    have "0 \<le> round1 (max 0 ((40 - 10) / (f / 5)))"
      by (rule round1_nonneg) simp
    with False show ?thesis by (simp add: eq)
  qed
  from eq zero sign round1_close show ?thesis by blast
qed

(* risk *)

section \<open>Tumbling window snapshots\<close>

text \<open>
  C6. compute_rolling_windows raises KeyError for _instance on every input: its reduce
  call reads pw.this._instance, and the windowed table has the column _pw_instance. No
  snapshot, and so no carbon_kg, fuel_efficiency or speed_variance, is computed.
\<close>

theorem compute_rolling_windows_raises:
  "compute_rolling_windows telemetry = Inl (KeyError ''_instance'')"
  by (simp add: compute_rolling_windows_def resolve_def windowby_columns_def
      telemetry_columns_def rolling_windows_refs_def)

section \<open>The z-score detector\<close>

text \<open>
  C7. The statistics of the z-score detector raise KeyError for _instance on every
  input, for the same misnamed column, and the detector with them: no standard
  deviation is computed and no alert fires.
\<close>

theorem detect_zscore_anomalies_raises:
  "zscores telemetry = Inl (KeyError ''_instance'')
   \<and> detect_zscore_anomalies telemetry = Inl (KeyError ''_instance'')"
proof -
  have "zscores telemetry = Inl (KeyError ''_instance'')" for telemetry :: "'a telemetry_carbon_scheme list"
    by (simp add: zscores_def resolve_def windowby_columns_def telemetry_columns_def
        zscore_refs_def)
  then show ?thesis
    by (simp add: detect_zscore_anomalies_def)
qed

section \<open>The route deviation detector\<close>

text \<open>
  C9. detect_route_deviations raises TypeError on every input, under every rounding: the
  distance column comes from pw.apply on a lambda, so it has no type, and the filter
  compares it with the float bound. No distance is computed and no alert is emitted.
\<close>

theorem detect_route_deviations_raises:
  "detect_route_deviations fl telemetry = Inl TypeError"
  by (simp add: detect_route_deviations_def compare_dtypes_def apply_dtype_def)

end
